theory Spec2Isabelle
  imports Main
begin

section \<open>HTTP request guard middleware (package utils)\<close>

subsection \<open>Requests, responses and handlers\<close>

text \<open>
  A response is what \<^verbatim>\<open>ResponseError\<close> emits: an HTTP status code and a
  human-readable message. The state of an \<^verbatim>\<open>http.ResponseWriter\<close> is the list of
  responses written to it so far, oldest first.
\<close>

record response =
  status :: nat
  message :: string

type_synonym response_writer = "response list"

abbreviation StatusUnauthorized :: nat where
  "StatusUnauthorized \<equiv> 401"

abbreviation StatusInternalServerError :: nat where
  "StatusInternalServerError \<equiv> 500"

text \<open>Token claims are key-value data; the middleware never looks inside them.\<close>

type_synonym claims = "(string \<times> string) list"

text \<open>
  A request carries its header (canonical field name to the values of that field) and the
  values that \<^verbatim>\<open>gorilla/context\<close> keeps for it.
\<close>

record request =
  Header :: "string \<rightharpoonup> string list"
  gorilla_context :: "string \<rightharpoonup> claims"

text \<open>
  A value given to \<^verbatim>\<open>panic\<close>, by the cases that the type switch of
  \<^verbatim>\<open>HandlerFuncErrorHandling\<close> tells apart: a value implementing \<^verbatim>\<open>error\<close>
  (with the text of its \<^verbatim>\<open>Error()\<close>), a \<^verbatim>\<open>string\<close>, and a value of any other
  type (tagged by a number). \<^verbatim>\<open>panic(nil)\<close> is not among them: what \<^verbatim>\<open>recover\<close>
  returns for it depends on the Go release.
\<close>

datatype panic_value = PanicError string | PanicString string | PanicOther nat

text \<open>
  Serving a request either returns or panics; in both cases the response writer holds what
  was written up to that point.
\<close>

datatype outcome = Returned response_writer | Panicked panic_value response_writer

type_synonym handler = "response_writer \<Rightarrow> request \<Rightarrow> outcome"

text \<open>
  Modelled from the spec: \<^verbatim>\<open>ResponseError(w, r, status, message)\<close> of package utils is
  not among the sources. Section 6 of the specification: on rejection the middleware
  "emits a JSON (or equivalent structured) error body with an HTTP status code and a
  human-readable message field".
\<close>

definition ResponseError :: "response_writer \<Rightarrow> request \<Rightarrow> nat \<Rightarrow> string \<Rightarrow> response_writer" where
  "ResponseError w r code msg = w @ [\<lparr>status = code, message = msg\<rparr>]"

subsection \<open>Library functions used by the middleware\<close>

text \<open>
  \<^verbatim>\<open>http.Header.Get(key)\<close>: the first value stored under the canonical form of the
  key, or the empty string. \<^verbatim>\<open>textproto.CanonicalMIMEHeaderKey\<close> leaves a key with a
  byte that is not a header token byte unchanged; otherwise it upper-cases the first
  letter and every letter after a hyphen, and lower-cases the others.
\<close>

definition validHeaderFieldByte :: "char \<Rightarrow> bool" where
  "validHeaderFieldByte c =
     (let n = (of_char c :: nat) in
      (48 \<le> n \<and> n \<le> 57) \<or> (65 \<le> n \<and> n \<le> 90) \<or> (97 \<le> n \<and> n \<le> 122) \<or>
      c \<in> set ''!#$%&*+-.^_`|~'' \<or> n = 39)"

definition toUpper :: "char \<Rightarrow> char" where
  "toUpper c = (let n = (of_char c :: nat) in if 97 \<le> n \<and> n \<le> 122 then char_of (n - 32) else c)"

definition toLower :: "char \<Rightarrow> char" where
  "toLower c = (let n = (of_char c :: nat) in if 65 \<le> n \<and> n \<le> 90 then char_of (n + 32) else c)"

fun canonicalMIMEHeaderKey :: "bool \<Rightarrow> string \<Rightarrow> string" where
  "canonicalMIMEHeaderKey upper [] = []"
| "canonicalMIMEHeaderKey upper (c # cs) =
     (if upper then toUpper c else toLower c) # canonicalMIMEHeaderKey (c = CHR ''-'') cs"

definition CanonicalMIMEHeaderKey :: "string \<Rightarrow> string" where
  "CanonicalMIMEHeaderKey s =
     (if list_all validHeaderFieldByte s then canonicalMIMEHeaderKey True s else s)"

definition Header_Get :: "(string \<rightharpoonup> string list) \<Rightarrow> string \<Rightarrow> string" where
  "Header_Get h key =
     (case h (CanonicalMIMEHeaderKey key) of
        None \<Rightarrow> ''''
      | Some [] \<Rightarrow> ''''
      | Some (v # vs) \<Rightarrow> v)"

text \<open>
  \<^verbatim>\<open>strings.Split(s, sep)\<close> for a separator of one byte, which is how the middleware
  calls it: the pieces of \<open>s\<close> between the occurrences of the separator, empty pieces
  included, so that a string with \<open>n\<close> separators gives \<open>n + 1\<close> pieces.
\<close>

fun Split :: "string \<Rightarrow> char \<Rightarrow> string list" where
  "Split [] sep = [[]]"
| "Split (c # cs) sep =
     (if c = sep then [] # Split cs sep
      else (case Split cs sep of
              [] \<Rightarrow> [[c]]
            | piece # pieces \<Rightarrow> (c # piece) # pieces))"

text \<open>
  \<^verbatim>\<open>context.Set(r, key, val)\<close> of gorilla/context stores the value under the key for
  the request.
\<close>

definition context_Set :: "request \<Rightarrow> string \<Rightarrow> claims \<Rightarrow> request" where
  "context_Set r key val = r\<lparr>gorilla_context := (gorilla_context r)(key \<mapsto> val)\<rparr>"

subsection \<open>Tokens\<close>

text \<open>
  The signing methods of jwt-go, by family; the key function of the middleware asks
  whether the method of a token is a \<^verbatim>\<open>*jwt.SigningMethodHMAC\<close>.
\<close>

datatype signing_method =
  SigningMethodHMAC string
| SigningMethodRSA string
| SigningMethodRSAPSS string
| SigningMethodECDSA string
| SigningMethodNone

fun isSigningMethodHMAC :: "signing_method \<Rightarrow> bool" where
  "isSigningMethodHMAC (SigningMethodHMAC alg) = True"
| "isSigningMethodHMAC (SigningMethodRSA alg) = False"
| "isSigningMethodHMAC (SigningMethodRSAPSS alg) = False"
| "isSigningMethodHMAC (SigningMethodECDSA alg) = False"
| "isSigningMethodHMAC SigningMethodNone = False"

record jwt_Token =
  Raw :: string
  Method :: signing_method
  Claims :: claims
  Valid :: bool

text \<open>
  The function literal handed to \<^verbatim>\<open>jwt.Parse\<close> (lines 19 to 24): the key is the
  configured secret for an HMAC token, and an error for every other signing method.
\<close>

type_synonym keyfunc = "jwt_Token \<Rightarrow> string + string"

definition keyFunc :: "string \<Rightarrow> keyfunc" where
  "keyFunc secret token =
     (if \<not> isSigningMethodHMAC (Method token) then Inl ''there was an error''
      else Inr secret)"

text \<open>
  \<^verbatim>\<open>jwt.Parse\<close> belongs to the token library, an external collaborator. The middleware
  takes it as a parameter: a function from the token string and the key function to
  either the text of the error (\<^verbatim>\<open>err.Error()\<close>) or, when \<^verbatim>\<open>err == nil\<close>, the
  token.
\<close>

type_synonym jwt_parse = "string \<Rightarrow> keyfunc \<Rightarrow> string + jwt_Token"

text \<open>
  Modelled from the spec: the body of \<^verbatim>\<open>jwt.Parse\<close> is not among the sources.
  Section 6 of the specification describes it as "parse-and-verify(tokenString,
  secretResolver) \<rightarrow> (claims, valid, error)"; section 4.3 as "parse and
  cryptographically validate the token against a configured shared secret". Decoding the
  token string and verifying the decoded token with a key stay parameters (\<open>decode\<close>
  gives the token or the error text, \<open>verify\<close> gives the error text or nothing). The
  key comes from the key function, whose error is the error of the parse; a token is
  marked valid exactly when nothing failed.
\<close>

definition jwt_Parse ::
    "(string \<Rightarrow> string + jwt_Token) \<Rightarrow> (jwt_Token \<Rightarrow> string \<Rightarrow> string option) \<Rightarrow> jwt_parse" where
  "jwt_Parse decode verify tokenString kf =
     (case decode tokenString of
        Inl err \<Rightarrow> Inl err
      | Inr token \<Rightarrow>
          (case kf token of
             Inl err \<Rightarrow> Inl err
           | Inr key \<Rightarrow>
               (case verify token key of
                  Some err \<Rightarrow> Inl err
                | None \<Rightarrow> Inr (token\<lparr>Valid := True\<rparr>))))"

subsection \<open>JWTMiddleware\<close>

definition JWTMiddleware :: "jwt_parse \<Rightarrow> handler \<Rightarrow> string \<Rightarrow> handler" where
  "JWTMiddleware Parse next secret w r =
     (let authorizationHeader = Header_Get (Header r) ''authorization'' in
      if authorizationHeader \<noteq> '''' then
        (let bearerToken = Split authorizationHeader CHR '' '' in
         if length bearerToken = 2 then
           (case Parse (bearerToken ! 1) (keyFunc secret) of
              Inl err \<Rightarrow> Returned (ResponseError w r StatusUnauthorized err)
            | Inr token \<Rightarrow>
                (if Valid token then next w (context_Set r ''decoded'' (Claims token))
                 else Returned (ResponseError w r StatusUnauthorized ''invalid authorization token'')))
         else Returned (ResponseError w r StatusUnauthorized
                ''authorization header not properly formated, should be Bearer + {token}''))
      else Returned (ResponseError w r StatusUnauthorized ''an authorization header is required''))"

subsection \<open>HandlerFuncErrorHandling\<close>

text \<open>\<^verbatim>\<open>recover()\<close> in the deferred function: the panic value, or nil after a return.\<close>

fun recover :: "outcome \<Rightarrow> panic_value option" where
  "recover (Returned w) = None"
| "recover (Panicked v w) = Some v"

fun writer_of :: "outcome \<Rightarrow> response_writer" where
  "writer_of (Returned w) = w"
| "writer_of (Panicked v w) = w"

text \<open>The deferred function (lines 47 to 60), given what \<^verbatim>\<open>recover()\<close> returned.\<close>

definition deferred :: "response_writer \<Rightarrow> request \<Rightarrow> panic_value option \<Rightarrow> response_writer" where
  "deferred w r rec =
     (case rec of
        None \<Rightarrow> w
      | Some t \<Rightarrow>
          ResponseError w r StatusInternalServerError
            (case t of
               PanicError e \<Rightarrow> e
             | PanicString s \<Rightarrow> s
             | PanicOther n \<Rightarrow> ''unknown error ocurred''))"

definition HandlerFuncErrorHandling :: "handler \<Rightarrow> handler" where
  "HandlerFuncErrorHandling next w r =
     (let out = next w r in Returned (deferred (writer_of out) r (recover out)))"

section \<open>Generic repository adapter (package infrastructure)\<close>

text \<open>
  The sources hold the \<^verbatim>\<open>Repository\<close> interface and the tests of
  \<^verbatim>\<open>MongoRepository\<close>, not the bodies of its methods. The methods are modelled from
  the specification and checked against the tests.
\<close>

subsection \<open>Identifiers\<close>

text \<open>
  Modelled from the spec: the conversion of an identifier string to the native encoding
  is not among the sources. Section 3 of the specification: an identifier "must be
  convertible to the database's native identifier encoding (e.g., a fixed-length
  hexadecimal form); conversion failure is a validation error". The tests build
  well-formed identifiers with \<^verbatim>\<open>primitive.NewObjectID().Hex()\<close>, 24 hexadecimal
  digits for 12 bytes, and use \<^verbatim>\<open>"invalid-id"\<close> as a malformed one.
\<close>

type_synonym ObjectID = "nat list"

definition fromHexChar :: "char \<Rightarrow> nat option" where
  "fromHexChar c =
     (let n = (of_char c :: nat) in
      if 48 \<le> n \<and> n \<le> 57 then Some (n - 48)
      else if 97 \<le> n \<and> n \<le> 102 then Some (n - 87)
      else if 65 \<le> n \<and> n \<le> 70 then Some (n - 55)
      else None)"

fun hex_DecodeString :: "string \<Rightarrow> nat list option" where
  "hex_DecodeString [] = Some []"
| "hex_DecodeString [c] = None"
| "hex_DecodeString (a # b # cs) =
     (case fromHexChar a of
        None \<Rightarrow> None
      | Some hi \<Rightarrow>
          (case fromHexChar b of
             None \<Rightarrow> None
           | Some lo \<Rightarrow>
               (case hex_DecodeString cs of
                  None \<Rightarrow> None
                | Some bytes \<Rightarrow> Some ((16 * hi + lo) # bytes))))"

definition ObjectIDFromHex :: "string \<Rightarrow> ObjectID option" where
  "ObjectIDFromHex s = (if length s \<noteq> 24 then None else hex_DecodeString s)"

subsection \<open>The collection handle\<close>

text \<open>
  The database driver is an external collaborator: a collection handle offers find-one,
  update-one and delete-one, each a round trip that may change the state \<open>'s\<close> of the
  database and that answers with an error or a result. Entities of shape \<open>'e\<close> are
  opaque.
\<close>

datatype find_error = ErrNoDocuments | FindFailed string

record UpdateResult =
  MatchedCount :: nat
  ModifiedCount :: nat

record DeleteResult =
  DeletedCount :: nat

record ('s, 'e) Collection =
  FindOne :: "ObjectID \<Rightarrow> 's \<Rightarrow> (find_error + 'e) \<times> 's"
  UpdateOne :: "ObjectID \<Rightarrow> 'e \<Rightarrow> 's \<Rightarrow> (string + UpdateResult) \<times> 's"
  DeleteOne :: "ObjectID \<Rightarrow> 's \<Rightarrow> (string + DeleteResult) \<times> 's"

text \<open>The error taxonomy of section 7 of the specification, as far as these methods use it.\<close>

datatype repo_error =
  InvalidIdentifierError
| PersistenceError string
| QueryError string
| NotFoundError

subsection \<open>GetByID, Update and Delete\<close>

text \<open>
  Modelled from the spec: the body of \<^verbatim>\<open>MongoRepository.GetByID\<close> is not among the
  sources. Section 4.1: "converts id to native encoding (fails with
  InvalidIdentifierError on malformed input), then performs a single-document lookup by
  identifier. Fails with NotFoundError if no document matches (propagated from the
  database's 'no documents' signal) or QueryError on other failures."
\<close>

definition GetByID :: "('s, 'e) Collection \<Rightarrow> string \<Rightarrow> 's \<Rightarrow> (repo_error + 'e) \<times> 's" where
  "GetByID coll ID s =
     (case ObjectIDFromHex ID of
        None \<Rightarrow> (Inl InvalidIdentifierError, s)
      | Some objectID \<Rightarrow>
          (case FindOne coll objectID s of
             (Inl ErrNoDocuments, s') \<Rightarrow> (Inl NotFoundError, s')
           | (Inl (FindFailed err), s') \<Rightarrow> (Inl (QueryError err), s')
           | (Inr entity, s') \<Rightarrow> (Inr entity, s')))"

text \<open>
  Modelled from the spec: the body of \<^verbatim>\<open>MongoRepository.Update\<close> is not among the
  sources. Section 4.1 gives the three outcomes: "identifier malformed \<rightarrow>
  InvalidIdentifierError; operation failed \<rightarrow> PersistenceError; operation succeeded but
  matched zero documents \<rightarrow> NotFoundError". On which count decides the third outcome the
  specification has two answers: section 4.1 names the matched count, the scenario of
  section 8 the modified count ("Update on an existing id with a driver response
  indicating zero modified documents must surface NotFoundError, not success"). The
  model takes the modified count, and agrees with every test under the sources:
  \<^verbatim>\<open>TestUpdate_OK\<close> expects success from the response
  \<^verbatim>\<open>{ok: 1, nModified: 1}\<close>, which reports no matched document, and
  \<^verbatim>\<open>TestUpdate_NotUpdatedError\<close> expects \<^verbatim>\<open>mongo.ErrNoDocuments\<close> from
  \<^verbatim>\<open>{ok: 1, nModified: 0}\<close>. No test queues a response with a matched and no
  modified document, so no source decides what \<open>Update\<close> returns there; nothing
  below is stated about that case.
\<close>

definition Update :: "('s, 'e) Collection \<Rightarrow> string \<Rightarrow> 'e \<Rightarrow> 's \<Rightarrow> (repo_error + unit) \<times> 's" where
  "Update coll ID entity s =
     (case ObjectIDFromHex ID of
        None \<Rightarrow> (Inl InvalidIdentifierError, s)
      | Some objectID \<Rightarrow>
          (case UpdateOne coll objectID entity s of
             (Inl err, s') \<Rightarrow> (Inl (PersistenceError err), s')
           | (Inr result, s') \<Rightarrow>
               (if ModifiedCount result < 1 then (Inl NotFoundError, s') else (Inr (), s'))))"

text \<open>
  Modelled from the spec: the body of \<^verbatim>\<open>MongoRepository.Delete\<close> is not among the
  sources. Section 4.1: "converts id, deletes the document with that identifier. Same
  three-way outcome structure as Update: invalid identifier, operation failure, or zero
  documents removed \<rightarrow> NotFoundError."
\<close>

definition Delete :: "('s, 'e) Collection \<Rightarrow> string \<Rightarrow> 's \<Rightarrow> (repo_error + unit) \<times> 's" where
  "Delete coll ID s =
     (case ObjectIDFromHex ID of
        None \<Rightarrow> (Inl InvalidIdentifierError, s)
      | Some objectID \<Rightarrow>
          (case DeleteOne coll objectID s of
             (Inl err, s') \<Rightarrow> (Inl (PersistenceError err), s')
           | (Inr result, s') \<Rightarrow>
               (if DeletedCount result < 1 then (Inl NotFoundError, s') else (Inr (), s'))))"

text \<open>
  The other reading of section 4.1, for comparison only: not-found decided by the matched
  count. It is not the model of \<open>Update\<close>, because it disagrees with
  \<^verbatim>\<open>TestUpdate_OK\<close> (see the tests below).
\<close>

definition Update_by_matched_count ::
    "('s, 'e) Collection \<Rightarrow> string \<Rightarrow> 'e \<Rightarrow> 's \<Rightarrow> (repo_error + unit) \<times> 's" where
  "Update_by_matched_count coll ID entity s =
     (case ObjectIDFromHex ID of
        None \<Rightarrow> (Inl InvalidIdentifierError, s)
      | Some objectID \<Rightarrow>
          (case UpdateOne coll objectID entity s of
             (Inl err, s') \<Rightarrow> (Inl (PersistenceError err), s')
           | (Inr result, s') \<Rightarrow>
               (if MatchedCount result < 1 then (Inl NotFoundError, s') else (Inr (), s'))))"

subsection \<open>The mock deployment of the tests\<close>

text \<open>
  The tests run against \<^verbatim>\<open>mtest\<close>: responses are queued with
  \<^verbatim>\<open>AddMockResponses\<close>, each command sent to the deployment is recorded and answered
  by the next queued response. A command response is a document of integer fields
  (\<^verbatim>\<open>bson.D{{Key: "ok", Value: 1}, {Key: "nModified", Value: 0}}\<close>); a cursor
  response carries a batch of documents. A response whose \<^verbatim>\<open>ok\<close> is not 1 is a
  failed command; an update reads its counts from \<^verbatim>\<open>n\<close> and \<^verbatim>\<open>nModified\<close>, a
  delete from \<^verbatim>\<open>n\<close>, an absent field counting as 0.
\<close>

datatype 'e mock_response = CommandResponse "(string \<times> int) list" | CursorResponse "'e list"

record 'e mtest =
  responses :: "'e mock_response list"
  started :: "string list"

definition AddMockResponses :: "'e mock_response list \<Rightarrow> 'e mtest \<Rightarrow> 'e mtest" where
  "AddMockResponses rs mt = mt\<lparr>responses := responses mt @ rs\<rparr>"

definition NewMongoDB :: "'e mtest" where
  "NewMongoDB = \<lparr>responses = [], started = []\<rparr>"

definition roundTrip :: "string \<Rightarrow> 'e mtest \<Rightarrow> (string + 'e mock_response) \<times> 'e mtest" where
  "roundTrip cmd mt =
     (case responses mt of
        [] \<Rightarrow> (Inl ''no responses remaining'', mt\<lparr>started := started mt @ [cmd]\<rparr>)
      | resp # rest \<Rightarrow>
          (case resp of
             CommandResponse d \<Rightarrow>
               (if map_of d ''ok'' = Some 1 then Inr resp else Inl ''command failed'')
           | CursorResponse batch \<Rightarrow> Inr resp,
           \<lparr>responses = rest, started = started mt @ [cmd]\<rparr>))"

definition count_field :: "(string \<times> int) list \<Rightarrow> string \<Rightarrow> nat" where
  "count_field d key = (case map_of d key of None \<Rightarrow> 0 | Some v \<Rightarrow> nat v)"

definition mock_FindOne :: "ObjectID \<Rightarrow> 'e mtest \<Rightarrow> (find_error + 'e) \<times> 'e mtest" where
  "mock_FindOne objectID mt =
     (case roundTrip ''find'' mt of
        (Inl err, mt') \<Rightarrow> (Inl (FindFailed err), mt')
      | (Inr (CommandResponse d), mt') \<Rightarrow> (Inl ErrNoDocuments, mt')
      | (Inr (CursorResponse []), mt') \<Rightarrow> (Inl ErrNoDocuments, mt')
      | (Inr (CursorResponse (doc # docs)), mt') \<Rightarrow> (Inr doc, mt'))"

definition mock_UpdateOne :: "ObjectID \<Rightarrow> 'e \<Rightarrow> 'e mtest \<Rightarrow> (string + UpdateResult) \<times> 'e mtest" where
  "mock_UpdateOne objectID entity mt =
     (case roundTrip ''update'' mt of
        (Inl err, mt') \<Rightarrow> (Inl err, mt')
      | (Inr (CommandResponse d), mt') \<Rightarrow>
          (Inr \<lparr>MatchedCount = count_field d ''n'', ModifiedCount = count_field d ''nModified''\<rparr>, mt')
      | (Inr (CursorResponse batch), mt') \<Rightarrow>
          (Inr \<lparr>MatchedCount = 0, ModifiedCount = 0\<rparr>, mt'))"

definition mock_DeleteOne :: "ObjectID \<Rightarrow> 'e mtest \<Rightarrow> (string + DeleteResult) \<times> 'e mtest" where
  "mock_DeleteOne objectID mt =
     (case roundTrip ''delete'' mt of
        (Inl err, mt') \<Rightarrow> (Inl err, mt')
      | (Inr (CommandResponse d), mt') \<Rightarrow> (Inr \<lparr>DeletedCount = count_field d ''n''\<rparr>, mt')
      | (Inr (CursorResponse batch), mt') \<Rightarrow> (Inr \<lparr>DeletedCount = 0\<rparr>, mt'))"

definition mock_Collection :: "('e mtest, 'e) Collection" where
  "mock_Collection =
     \<lparr>FindOne = mock_FindOne, UpdateOne = mock_UpdateOne, DeleteOne = mock_DeleteOne\<rparr>"

text \<open>
  The entity of the tests, \<^verbatim>\<open>testEntity{}\<close>: a struct whose only field is its
  \<^verbatim>\<open>ID\<close> (here \<open>testEntity_ID\<close>, as \<open>ID\<close> names the identifier argument of
  the methods).
\<close>

record testEntity =
  testEntity_ID :: string

definition newEntity :: testEntity where
  "newEntity = \<lparr>testEntity_ID = ''''\<rparr>"

text \<open>A well-formed identifier, as \<^verbatim>\<open>primitive.NewObjectID().Hex()\<close> produces them.\<close>

definition validHex :: string where
  "validHex = ''507f191e810c19729de860ea''"

section \<open>Concrete requests, handlers and tokens\<close>

text \<open>Handlers: one that answers 200, and three that panic after writing nothing.\<close>

definition okHandler :: handler where
  "okHandler w r = Returned (w @ [\<lparr>status = 200, message = ''ok''\<rparr>])"

definition panicErrorHandler :: handler where
  "panicErrorHandler w r = Panicked (PanicError ''connection refused'') w"

definition panicStringHandler :: handler where
  "panicStringHandler w r = Panicked (PanicString ''boom'') w"

definition panicOtherHandler :: handler where
  "panicOtherHandler w r = Panicked (PanicOther 42) w"

text \<open>
  A handler that reads what the middleware attached: it answers 200 with the subject of
  the claims stored under \<open>decoded\<close> in the context of the request, and 403 when the
  context holds no claims under that key.
\<close>

definition subjectHandler :: handler where
  "subjectHandler w r =
     (case gorilla_context r ''decoded'' of
        None \<Rightarrow> Returned (w @ [\<lparr>status = 403, message = ''no claims''\<rparr>])
      | Some cs \<Rightarrow>
          Returned (w @ [\<lparr>status = 200,
            message = (case map_of cs ''sub'' of None \<Rightarrow> ''no subject'' | Some subject \<Rightarrow> subject)\<rparr>]))"

text \<open>Requests: without a header, and with an authorization header of a given value.\<close>

definition bareRequest :: request where
  "bareRequest = \<lparr>Header = Map.empty, gorilla_context = Map.empty\<rparr>"

definition authRequest :: "string \<Rightarrow> request" where
  "authRequest v = \<lparr>Header = [''Authorization'' \<mapsto> [v]], gorilla_context = Map.empty\<rparr>"

text \<open>
  A stand-in for the token library, for evaluating the middleware: a token string is
  \<open>alg.subject.signature\<close>, the method is HMAC when \<open>alg\<close> starts with \<open>HS\<close>, the
  claims hold the subject, and a signature verifies when it is the key itself.
\<close>

definition toyDecode :: "string \<Rightarrow> string + jwt_Token" where
  "toyDecode tokenString =
     (case Split tokenString CHR ''.'' of
        [alg, sub, sig] \<Rightarrow>
          Inr \<lparr>Raw = tokenString,
               Method = (if take 2 alg = ''HS'' then SigningMethodHMAC alg else SigningMethodRSA alg),
               Claims = [(''sub'', sub)],
               Valid = False\<rparr>
      | _ \<Rightarrow> Inl ''token contains an invalid number of segments'')"

definition toyVerify :: "jwt_Token \<Rightarrow> string \<Rightarrow> string option" where
  "toyVerify token key =
     (case Split (Raw token) CHR ''.'' of
        [alg, sub, sig] \<Rightarrow> (if sig = key then None else Some ''signature is invalid'')
      | _ \<Rightarrow> Some ''signature is invalid'')"

text \<open>Parsers that ignore their input: one accepts, one returns a token not marked valid.\<close>

definition someToken :: jwt_Token where
  "someToken = \<lparr>Raw = ''t'', Method = SigningMethodHMAC ''HS256'', Claims = [(''sub'', ''ann'')], Valid = False\<rparr>"

definition acceptingParse :: jwt_parse where
  "acceptingParse tokenString kf = Inr (someToken\<lparr>Valid := True\<rparr>)"

definition unmarkedParse :: jwt_parse where
  "unmarkedParse tokenString kf = Inr someToken"

section \<open>Facts about the library functions and the concrete inputs\<close>

lemma CanonicalMIMEHeaderKey_authorization:
  "CanonicalMIMEHeaderKey ''authorization'' = ''Authorization''"
  by code_simp

lemma Header_Get_absent:
  "Header r ''Authorization'' = None \<Longrightarrow> Header_Get (Header r) ''authorization'' = ''''"
  by (simp add: Header_Get_def CanonicalMIMEHeaderKey_authorization)

lemma Header_Get_bareRequest: "Header_Get (Header bareRequest) ''authorization'' = ''''"
  by (simp add: Header_Get_def bareRequest_def)

lemma Header_Get_authRequest: "Header_Get (Header (authRequest v)) ''authorization'' = v"
  by (simp add: Header_Get_def authRequest_def CanonicalMIMEHeaderKey_authorization)

text \<open>A string with \<open>n\<close> separators splits into \<open>n + 1\<close> pieces.\<close>

lemma length_Split: "length (Split s sep) = Suc (count_list s sep)"
  by (induction s) (auto split: list.splits)

lemma Split_two_nonempty: "Split s sep = [a, b] \<Longrightarrow> s \<noteq> ''''"
  by auto

lemma ObjectIDFromHex_validHex:
  "ObjectIDFromHex validHex = Some [80, 127, 25, 30, 129, 12, 25, 114, 157, 232, 96, 234]"
  by (simp add: ObjectIDFromHex_def validHex_def fromHexChar_def)

lemma ObjectIDFromHex_invalid_id: "ObjectIDFromHex ''invalid-id'' = None"
  by (simp add: ObjectIDFromHex_def)

text \<open>Only strings of 24 characters convert.\<close>

lemma ObjectIDFromHex_Some_length: "ObjectIDFromHex s = Some objectID \<Longrightarrow> length s = 24"
  by (simp add: ObjectIDFromHex_def split: if_splits)

lemmas mock_defs =
  mock_Collection_def mock_FindOne_def mock_UpdateOne_def mock_DeleteOne_def roundTrip_def
  AddMockResponses_def NewMongoDB_def count_field_def

lemma mock_DeleteOne_none_removed:
  "DeleteOne mock_Collection objectID
     (AddMockResponses [CommandResponse [(''ok'', 1), (''n'', 0)]] (NewMongoDB :: testEntity mtest)) =
   (Inr \<lparr>DeletedCount = 0\<rparr>, \<lparr>responses = [], started = [''delete'']\<rparr>)"
  by (simp add: mock_defs)

section \<open>The tests of the repository, run on the model\<close>

text \<open>
  Each test of \<^verbatim>\<open>part_002\<close> for \<open>GetByID\<close>, \<open>Update\<close> and \<open>Delete\<close>: the
  queued responses, the call, and the result the test asserts. The tests with an invalid
  identifier queue nothing, and nothing is sent.
\<close>

lemma TestGetByID_Ok:
  "GetByID mock_Collection validHex (AddMockResponses [CursorResponse [newEntity]] NewMongoDB) =
     (Inr newEntity, \<lparr>responses = [], started = [''find'']\<rparr>)"
  by (simp add: GetByID_def ObjectIDFromHex_validHex mock_defs)

lemma TestGetByID_InvalidID:
  "GetByID mock_Collection ''invalid-id'' (NewMongoDB :: testEntity mtest) =
     (Inl InvalidIdentifierError, \<lparr>responses = [], started = []\<rparr>)"
  by (simp add: GetByID_def ObjectIDFromHex_invalid_id NewMongoDB_def)

lemma TestGetByID_FindOneError:
  "GetByID mock_Collection validHex
       (AddMockResponses [CommandResponse [(''ok'', 0)]] (NewMongoDB :: testEntity mtest)) =
     (Inl (QueryError ''command failed''), \<lparr>responses = [], started = [''find'']\<rparr>)"
  by (simp add: GetByID_def ObjectIDFromHex_validHex mock_defs)

lemma TestUpdate_OK:
  "Update mock_Collection validHex newEntity
       (AddMockResponses [CommandResponse [(''ok'', 1), (''nModified'', 1)]] NewMongoDB) =
     (Inr (), \<lparr>responses = [], started = [''update'']\<rparr>)"
  by (simp add: Update_def ObjectIDFromHex_validHex mock_defs)

lemma TestUpdate_InvalidID:
  "Update mock_Collection ''invalid-id'' newEntity NewMongoDB =
     (Inl InvalidIdentifierError, \<lparr>responses = [], started = []\<rparr>)"
  by (simp add: Update_def ObjectIDFromHex_invalid_id NewMongoDB_def)

lemma TestUpdate_UpdateOneError:
  "Update mock_Collection validHex newEntity
       (AddMockResponses [CommandResponse [(''ok'', 0)]] NewMongoDB) =
     (Inl (PersistenceError ''command failed''), \<lparr>responses = [], started = [''update'']\<rparr>)"
  by (simp add: Update_def ObjectIDFromHex_validHex mock_defs)

lemma TestUpdate_NotUpdatedError:
  "Update mock_Collection validHex newEntity
       (AddMockResponses [CommandResponse [(''ok'', 1), (''nModified'', 0)]] NewMongoDB) =
     (Inl NotFoundError, \<lparr>responses = [], started = [''update'']\<rparr>)"
  by (simp add: Update_def ObjectIDFromHex_validHex mock_defs)

lemma TestDelete_OK:
  "Delete mock_Collection validHex
       (AddMockResponses [CommandResponse [(''ok'', 1), (''n'', 1)]] (NewMongoDB :: testEntity mtest)) =
     (Inr (), \<lparr>responses = [], started = [''delete'']\<rparr>)"
  by (simp add: Delete_def ObjectIDFromHex_validHex mock_defs)

lemma TestDelete_InvalidID:
  "Delete mock_Collection ''invalid-id'' (NewMongoDB :: testEntity mtest) =
     (Inl InvalidIdentifierError, \<lparr>responses = [], started = []\<rparr>)"
  by (simp add: Delete_def ObjectIDFromHex_invalid_id NewMongoDB_def)

lemma TestDelete_DeleteOneError:
  "Delete mock_Collection validHex
       (AddMockResponses [CommandResponse [(''ok'', 0)]] (NewMongoDB :: testEntity mtest)) =
     (Inl (PersistenceError ''command failed''), \<lparr>responses = [], started = [''delete'']\<rparr>)"
  by (simp add: Delete_def ObjectIDFromHex_validHex mock_defs)

lemma TestDelete_NotDeletedError:
  "Delete mock_Collection validHex
       (AddMockResponses [CommandResponse [(''ok'', 1), (''n'', 0)]] (NewMongoDB :: testEntity mtest)) =
     (Inl NotFoundError, \<lparr>responses = [], started = [''delete'']\<rparr>)"
  by (simp add: Delete_def ObjectIDFromHex_validHex mock_defs)

text \<open>
  Deciding not-found by the matched count would turn the success that
  \<^verbatim>\<open>TestUpdate_OK\<close> asserts into a not-found: its response reports one modified and
  no matched document.
\<close>

lemma TestUpdate_OK_by_matched_count:
  "Update_by_matched_count mock_Collection validHex newEntity
       (AddMockResponses [CommandResponse [(''ok'', 1), (''nModified'', 1)]] NewMongoDB) =
     (Inl NotFoundError, \<lparr>responses = [], started = [''update'']\<rparr>)"
  by (simp add: Update_by_matched_count_def ObjectIDFromHex_validHex mock_defs)

section \<open>The repository adapter: outcomes of Update, GetByID and Delete\<close>

text \<open>
  Claim C2: for every malformed identifier, that is every string that does not convert,
  each of \<open>GetByID\<close>, \<open>Update\<close> and \<open>Delete\<close> fails with
  \<open>InvalidIdentifierError\<close> and performs no database call. The result does not depend
  on the collection handle, and the state of the database is returned as it was given,
  for every handle, also one whose operations all change the state.
\<close>

theorem malformed_identifier_no_database_call:
  assumes "ObjectIDFromHex ID = None"
  shows "GetByID coll ID s = (Inl InvalidIdentifierError, s) \<and>
         Update coll ID entity s = (Inl InvalidIdentifierError, s) \<and>
         Delete coll ID s = (Inl InvalidIdentifierError, s)"
  using assms by (simp add: GetByID_def Update_def Delete_def)

text \<open>
  With the mock deployment: the queued response is still queued and no command has been
  recorded.
\<close>

theorem malformed_identifier_no_database_call_witness:
  "GetByID mock_Collection ''invalid-id''
       (AddMockResponses [CursorResponse [newEntity]] NewMongoDB) =
     (Inl InvalidIdentifierError, \<lparr>responses = [CursorResponse [newEntity]], started = []\<rparr>) \<and>
   Update mock_Collection ''invalid-id'' newEntity
       (AddMockResponses [CursorResponse [newEntity]] NewMongoDB) =
     (Inl InvalidIdentifierError, \<lparr>responses = [CursorResponse [newEntity]], started = []\<rparr>) \<and>
   Delete mock_Collection ''invalid-id''
       (AddMockResponses [CursorResponse [newEntity]] NewMongoDB) =
     (Inl InvalidIdentifierError, \<lparr>responses = [CursorResponse [newEntity]], started = []\<rparr>)"
  using malformed_identifier_no_database_call [OF ObjectIDFromHex_invalid_id,
      of mock_Collection "AddMockResponses [CursorResponse [newEntity]] NewMongoDB" newEntity]
  by (simp add: AddMockResponses_def NewMongoDB_def)

text \<open>
  Claim C3: for every \<open>Delete\<close> with a well-formed identifier where the driver reports
  success and zero documents removed, as it does for a document that was deleted before,
  \<open>Delete\<close> returns \<open>NotFoundError\<close> and not success.
\<close>

theorem Delete_zero_removed_NotFound:
  assumes "ObjectIDFromHex ID = Some objectID"
    and "DeleteOne coll objectID s = (Inr result, s')"
    and "DeletedCount result = 0"
  shows "Delete coll ID s = (Inl NotFoundError, s')"
  using assms by (simp add: Delete_def)

theorem Delete_zero_removed_NotFound_witness:
  "Delete mock_Collection validHex
       (AddMockResponses [CommandResponse [(''ok'', 1), (''n'', 0)]] (NewMongoDB :: testEntity mtest)) =
     (Inl NotFoundError, \<lparr>responses = [], started = [''delete'']\<rparr>)"
  using Delete_zero_removed_NotFound [OF ObjectIDFromHex_validHex mock_DeleteOne_none_removed]
  by simp

section \<open>The panic-to-response converter\<close>

text \<open>
  What the converter does with a panic: one response with status 500 after what the
  handler had written, with the text of an error or of a string, and the fixed text of
  line 56 for any other value.
\<close>

lemma HandlerFuncErrorHandling_panic:
  assumes "nextHandler w r = Panicked v w'"
  shows "HandlerFuncErrorHandling nextHandler w r =
           Returned (ResponseError w' r 500
             (case v of
                PanicError e \<Rightarrow> e
              | PanicString s \<Rightarrow> s
              | PanicOther n \<Rightarrow> ''unknown error ocurred''))"
  using assms by (simp add: HandlerFuncErrorHandling_def deferred_def)

lemma HandlerFuncErrorHandling_panic_error:
  "HandlerFuncErrorHandling panicErrorHandler [] bareRequest =
     Returned [\<lparr>status = 500, message = ''connection refused''\<rparr>]"
  by (simp add: HandlerFuncErrorHandling_def deferred_def panicErrorHandler_def ResponseError_def)

lemma HandlerFuncErrorHandling_panic_string:
  "HandlerFuncErrorHandling panicStringHandler [] bareRequest =
     Returned [\<lparr>status = 500, message = ''boom''\<rparr>]"
  by (simp add: HandlerFuncErrorHandling_def deferred_def panicStringHandler_def ResponseError_def)

text \<open>
  Claim C4 says that a panic whose value is neither an error nor a string gives a 500
  response with the message "unknown error occurred". For a handler that panics with the
  number 42 the response has status 500, but its message is the text of line 56,
  "unknown error ocurred", which is not the text of the claim.
\<close>

theorem HandlerFuncErrorHandling_generic_text:
  "HandlerFuncErrorHandling panicOtherHandler [] bareRequest =
     Returned [\<lparr>status = 500, message = ''unknown error ocurred''\<rparr>] \<and>
   HandlerFuncErrorHandling panicOtherHandler [] bareRequest \<noteq>
     Returned [\<lparr>status = 500, message = ''unknown error occurred''\<rparr>]"
  by (simp add: HandlerFuncErrorHandling_def deferred_def panicOtherHandler_def ResponseError_def)

text \<open>
  Claim C10: when the wrapped handler returns without panicking,
  \<open>HandlerFuncErrorHandling\<close> writes nothing: the response writer is exactly as the
  handler left it, with no 500 response added.
\<close>

theorem HandlerFuncErrorHandling_normal_return:
  assumes "nextHandler w r = Returned w'"
  shows "HandlerFuncErrorHandling nextHandler w r = Returned w'"
  using assms by (simp add: HandlerFuncErrorHandling_def deferred_def)

theorem HandlerFuncErrorHandling_normal_return_witness:
  "HandlerFuncErrorHandling okHandler [] bareRequest = Returned [\<lparr>status = 200, message = ''ok''\<rparr>]"
proof -
  have served: "okHandler [] bareRequest = Returned [\<lparr>status = 200, message = ''ok''\<rparr>]"
    by (simp add: okHandler_def)
  show ?thesis
    using HandlerFuncErrorHandling_normal_return [where nextHandler = okHandler, OF served] .
qed

section \<open>The bearer-token middleware\<close>

text \<open>
  In the statements below the handler and the parser are arbitrary. Where the result is
  a rejection, the right-hand side mentions neither: the wrapped handler is not invoked
  and, where the parser is absent too, no token is parsed.
\<close>

text \<open>
  What \<open>context_Set\<close> does to a request: the value is stored under the key, the other
  keys and the header are as before.
\<close>

lemma gorilla_context_context_Set:
  "gorilla_context (context_Set r key val) = (gorilla_context r)(key \<mapsto> val)"
  by (simp add: context_Set_def)

lemma Header_context_Set: "Header (context_Set r key val) = Header r"
  by (simp add: context_Set_def)

text \<open>
  Claim C5: for a request whose header carries a token that parses without error, the
  middleware attaches the claims of the token to the context of the request and invokes
  the wrapped handler when the token is marked valid: the handler is given the response
  writer and a request whose context holds the claims of the token under \<open>decoded\<close>,
  with every other key of the context and the header as they were. When the token is not
  marked valid, the middleware rejects with 401 and "invalid authorization token" and the
  wrapped handler is not invoked.
\<close>

theorem JWTMiddleware_token_marked:
  assumes "Split (Header_Get (Header r) ''authorization'') CHR '' '' = [scheme, tokenString]"
    and "Parse tokenString (keyFunc secret) = Inr token"
  shows "(Valid token \<longrightarrow>
            (\<exists>r'. JWTMiddleware Parse nextHandler secret w r = nextHandler w r' \<and>
                  gorilla_context r' ''decoded'' = Some (Claims token) \<and>
                  gorilla_context r' = (gorilla_context r)(''decoded'' \<mapsto> Claims token) \<and>
                  Header r' = Header r \<and>
                  r' = context_Set r ''decoded'' (Claims token))) \<and>
         (\<not> Valid token \<longrightarrow>
            JWTMiddleware Parse nextHandler secret w r =
              Returned (ResponseError w r 401 ''invalid authorization token''))"
proof -
  from assms(1) have "Header_Get (Header r) ''authorization'' \<noteq> ''''"
    by (rule Split_two_nonempty)
  with assms have served: "Valid token \<Longrightarrow>
      JWTMiddleware Parse nextHandler secret w r =
        nextHandler w (context_Set r ''decoded'' (Claims token))"
    and rejected: "\<not> Valid token \<Longrightarrow>
      JWTMiddleware Parse nextHandler secret w r =
        Returned (ResponseError w r 401 ''invalid authorization token'')"
    by (simp_all add: JWTMiddleware_def)
  show ?thesis
  proof (intro conjI impI)
    assume "Valid token"
    then show "\<exists>r'. JWTMiddleware Parse nextHandler secret w r = nextHandler w r' \<and>
        gorilla_context r' ''decoded'' = Some (Claims token) \<and>
        gorilla_context r' = (gorilla_context r)(''decoded'' \<mapsto> Claims token) \<and>
        Header r' = Header r \<and>
        r' = context_Set r ''decoded'' (Claims token)"
      using served
      by (intro exI [of _ "context_Set r ''decoded'' (Claims token)"])
        (simp add: gorilla_context_context_Set Header_context_Set)
  next
    assume "\<not> Valid token"
    then show "JWTMiddleware Parse nextHandler secret w r =
        Returned (ResponseError w r 401 ''invalid authorization token'')"
      by (rule rejected)
  qed
qed

text \<open>
  With a handler that answers with the subject it finds in the context: the subject of
  the token comes back, so the claims were attached before the handler ran; the request
  itself carried no claims. With a token not marked valid the handler does not run.
\<close>

theorem JWTMiddleware_token_marked_witness:
  "gorilla_context (authRequest ''Bearer t'') ''decoded'' = None \<and>
   subjectHandler [] (authRequest ''Bearer t'') =
     Returned [\<lparr>status = 403, message = ''no claims''\<rparr>] \<and>
   JWTMiddleware acceptingParse subjectHandler ''secret'' [] (authRequest ''Bearer t'') =
     Returned [\<lparr>status = 200, message = ''ann''\<rparr>] \<and>
   JWTMiddleware unmarkedParse subjectHandler ''secret'' [] (authRequest ''Bearer t'') =
     Returned [\<lparr>status = 401, message = ''invalid authorization token''\<rparr>]"
proof -
  have hdr: "Split (Header_Get (Header (authRequest ''Bearer t'')) ''authorization'') CHR '' '' =
      [''Bearer'', ''t'']"
    by (simp add: Header_Get_authRequest)
  have marked: "acceptingParse ''t'' (keyFunc ''secret'') = Inr (someToken\<lparr>Valid := True\<rparr>)"
    by (simp add: acceptingParse_def)
  have unmarked: "unmarkedParse ''t'' (keyFunc ''secret'') = Inr someToken"
    by (simp add: unmarkedParse_def)
  have bare: "gorilla_context (authRequest ''Bearer t'') ''decoded'' = None"
    by (simp add: authRequest_def)
  have unattached: "subjectHandler [] (authRequest ''Bearer t'') =
      Returned [\<lparr>status = 403, message = ''no claims''\<rparr>]"
    by (simp add: subjectHandler_def bare)
  from JWTMiddleware_token_marked [where Parse = acceptingParse and nextHandler = subjectHandler
      and w = "[]", OF hdr marked]
  obtain r' where run: "JWTMiddleware acceptingParse subjectHandler ''secret'' []
        (authRequest ''Bearer t'') = subjectHandler [] r'"
    and attached: "gorilla_context r' ''decoded'' = Some (Claims (someToken\<lparr>Valid := True\<rparr>))"
    by auto
  have served: "JWTMiddleware acceptingParse subjectHandler ''secret'' []
      (authRequest ''Bearer t'') = Returned [\<lparr>status = 200, message = ''ann''\<rparr>]"
    using run attached by (simp add: subjectHandler_def someToken_def)
  have rejected: "JWTMiddleware unmarkedParse subjectHandler ''secret'' []
      (authRequest ''Bearer t'') =
      Returned [\<lparr>status = 401, message = ''invalid authorization token''\<rparr>]"
    using JWTMiddleware_token_marked [where Parse = unmarkedParse
        and nextHandler = subjectHandler and w = "[]", OF hdr unmarked]
    by (simp add: someToken_def ResponseError_def)
  from bare unattached served rejected show ?thesis
    by simp
qed

text \<open>
  Claim C6: for a request whose bearer token is signed with a method that is not HMAC, or
  whose verification with the configured secret fails, the middleware rejects with 401
  and the text of the underlying error (the error of the key function for a method that
  is not HMAC, the error of the verification otherwise), and the wrapped handler is not
  invoked.
\<close>

theorem JWTMiddleware_rejects_unverified:
  assumes "Split (Header_Get (Header r) ''authorization'') CHR '' '' = [scheme, tokenString]"
    and "decode tokenString = Inr token"
    and "\<not> isSigningMethodHMAC (Method token) \<or> verify token secret = Some err"
  shows "JWTMiddleware (jwt_Parse decode verify) nextHandler secret w r =
           Returned (ResponseError w r 401
             (if isSigningMethodHMAC (Method token) then err else ''there was an error''))"
proof -
  from assms(1) have "Header_Get (Header r) ''authorization'' \<noteq> ''''"
    by (rule Split_two_nonempty)
  moreover from assms(2,3) have "jwt_Parse decode verify tokenString (keyFunc secret) =
      Inl (if isSigningMethodHMAC (Method token) then err else ''there was an error'')"
    by (auto simp: jwt_Parse_def keyFunc_def)
  ultimately show ?thesis
    using assms(1) by (simp add: JWTMiddleware_def)
qed

theorem JWTMiddleware_rejects_unverified_witness:
  "JWTMiddleware (jwt_Parse toyDecode toyVerify) okHandler ''secret'' []
       (authRequest ''Bearer RS256.ann.secret'') =
     Returned [\<lparr>status = 401, message = ''there was an error''\<rparr>] \<and>
   JWTMiddleware (jwt_Parse toyDecode toyVerify) okHandler ''secret'' []
       (authRequest ''Bearer HS256.ann.forged'') =
     Returned [\<lparr>status = 401, message = ''signature is invalid''\<rparr>]"
proof -
  have hdr_rsa: "Split (Header_Get (Header (authRequest ''Bearer RS256.ann.secret'')) ''authorization'')
      CHR '' '' = [''Bearer'', ''RS256.ann.secret'']"
    by (simp add: Header_Get_authRequest)
  have dec_rsa: "toyDecode ''RS256.ann.secret'' =
      Inr \<lparr>Raw = ''RS256.ann.secret'', Method = SigningMethodRSA ''RS256'',
           Claims = [(''sub'', ''ann'')], Valid = False\<rparr>"
    by (simp add: toyDecode_def)
  have hdr_forged: "Split (Header_Get (Header (authRequest ''Bearer HS256.ann.forged'')) ''authorization'')
      CHR '' '' = [''Bearer'', ''HS256.ann.forged'']"
    by (simp add: Header_Get_authRequest)
  have dec_forged: "toyDecode ''HS256.ann.forged'' =
      Inr \<lparr>Raw = ''HS256.ann.forged'', Method = SigningMethodHMAC ''HS256'',
           Claims = [(''sub'', ''ann'')], Valid = False\<rparr>"
    by (simp add: toyDecode_def)
  have ver_forged: "toyVerify \<lparr>Raw = ''HS256.ann.forged'', Method = SigningMethodHMAC ''HS256'',
           Claims = [(''sub'', ''ann'')], Valid = False\<rparr> ''secret'' = Some ''signature is invalid''"
    by (simp add: toyVerify_def)
  show ?thesis
    using JWTMiddleware_rejects_unverified [where decode = toyDecode and verify = toyVerify
          and secret = "''secret''" and nextHandler = okHandler and w = "[]" and err = "[]",
          OF hdr_rsa dec_rsa]
      JWTMiddleware_rejects_unverified [where decode = toyDecode and verify = toyVerify
          and secret = "''secret''" and nextHandler = okHandler and w = "[]",
          OF hdr_forged dec_forged disjI2 [OF ver_forged]]
    by (simp add: ResponseError_def)
qed



text \<open>
  Claim C8 says that a request with no authorization header is rejected with 401 and the
  message "an authorization header is required.", ending in a full stop. For the request
  without any header the response is not that one: the message of line 39 has no full
  stop.
\<close>

theorem JWTMiddleware_no_header_counterexample:
  "Header bareRequest ''Authorization'' = None \<and>
   JWTMiddleware acceptingParse okHandler ''secret'' [] bareRequest \<noteq>
     Returned (ResponseError [] bareRequest 401 ''an authorization header is required.'')"
proof -
  have "JWTMiddleware acceptingParse okHandler ''secret'' [] bareRequest =
      Returned (ResponseError [] bareRequest 401 ''an authorization header is required'')"
    by (simp add: JWTMiddleware_def Header_Get_bareRequest)
  then show ?thesis
    by (simp add: ResponseError_def bareRequest_def)
qed

text \<open>
  Claim C8, amended: for every request with no authorization header, the middleware
  rejects with 401 and the fixed message "an authorization header is required" (without
  a full stop), and the wrapped handler is not invoked.
\<close>

theorem JWTMiddleware_no_header:
  assumes "Header r ''Authorization'' = None"
  shows "JWTMiddleware Parse nextHandler secret w r =
           Returned (ResponseError w r 401 ''an authorization header is required'')"
  using Header_Get_absent [OF assms] by (simp add: JWTMiddleware_def)

theorem JWTMiddleware_no_header_witness:
  "JWTMiddleware acceptingParse okHandler ''secret'' [] bareRequest =
     Returned [\<lparr>status = 401, message = ''an authorization header is required''\<rparr>]"
proof -
  have absent: "Header bareRequest ''Authorization'' = None"
    by (simp add: bareRequest_def)
  show ?thesis
    using JWTMiddleware_no_header [OF absent, of acceptingParse okHandler "''secret''" "[]"]
    by (simp add: ResponseError_def)
qed

text \<open>
  Claim C9: the middleware does not look at the first of the two pieces of the header.
  Whenever the header splits into two pieces and the second is a token with an HMAC
  method that verifies with the configured secret, the wrapped handler is invoked with
  the claims attached, whatever the first piece is.
\<close>

theorem JWTMiddleware_ignores_scheme:
  assumes "Split (Header_Get (Header r) ''authorization'') CHR '' '' = [scheme, tokenString]"
    and "decode tokenString = Inr token"
    and "isSigningMethodHMAC (Method token)"
    and "verify token secret = None"
  shows "JWTMiddleware (jwt_Parse decode verify) nextHandler secret w r =
           nextHandler w (context_Set r ''decoded'' (Claims token))"
proof -
  from assms(1) have "Header_Get (Header r) ''authorization'' \<noteq> ''''"
    by (rule Split_two_nonempty)
  moreover from assms(2,3,4) have "jwt_Parse decode verify tokenString (keyFunc secret) =
      Inr (token\<lparr>Valid := True\<rparr>)"
    by (simp add: jwt_Parse_def keyFunc_def)
  ultimately show ?thesis
    using assms(1) by (simp add: JWTMiddleware_def)
qed

theorem JWTMiddleware_ignores_scheme_witness:
  "JWTMiddleware (jwt_Parse toyDecode toyVerify) okHandler ''secret'' []
       (authRequest ''Basic HS256.ann.secret'') =
     okHandler [] (context_Set (authRequest ''Basic HS256.ann.secret'') ''decoded'' [(''sub'', ''ann'')])"
proof -
  have hdr: "Split (Header_Get (Header (authRequest ''Basic HS256.ann.secret'')) ''authorization'')
      CHR '' '' = [''Basic'', ''HS256.ann.secret'']"
    by (simp add: Header_Get_authRequest)
  have dec: "toyDecode ''HS256.ann.secret'' =
      Inr \<lparr>Raw = ''HS256.ann.secret'', Method = SigningMethodHMAC ''HS256'',
           Claims = [(''sub'', ''ann'')], Valid = False\<rparr>"
    by (simp add: toyDecode_def)
  have ver: "toyVerify \<lparr>Raw = ''HS256.ann.secret'', Method = SigningMethodHMAC ''HS256'',
           Claims = [(''sub'', ''ann'')], Valid = False\<rparr> ''secret'' = None"
    by (simp add: toyVerify_def)
  show ?thesis
    using JWTMiddleware_ignores_scheme [where decode = toyDecode and verify = toyVerify
          and nextHandler = okHandler and w = "[]", OF hdr dec _ ver]
    by simp
qed

end
